theory Spec2Isabelle
  imports Main "HOL-Library.Word" "HOL-Library.List_Lexorder" "HOL-Library.Char_ord"
begin

unbundle bit_operations_syntax

section \<open>Recursive copy of a filesystem entry: the program\<close>

text \<open>
  The Go package copies a file, a directory tree or a symbolic link from a source path
  to a destination path. Everything it does goes through the standard library: the
  system calls of package \<open>os\<close>, \<open>ioutil.ReadDir\<close>, \<open>io.Copy\<close> and the pure path
  functions of \<open>path/filepath\<close>. The system calls are a parameter of the embedding
  (a record of state transformers over a world \<open>'w\<close>), so that what is proved of the
  control flow holds for every behaviour of the operating system; a concrete
  in-memory filesystem instantiates the record further down.
\<close>

subsection \<open>Paths, modes and entry descriptors\<close>

type_synonym path = string

text \<open>\<open>os.FileMode\<close> is a \<open>uint32\<close>: the type bits sit at the top, the permission bits
  at the bottom.\<close>

type_synonym FileMode = "32 word"

definition ModeDir :: FileMode where
  "ModeDir = push_bit 31 1"

definition ModeSymlink :: FileMode where
  "ModeSymlink = push_bit 27 1"

definition ModeSetuid :: FileMode where
  "ModeSetuid = push_bit 23 1"

definition ModeSetgid :: FileMode where
  "ModeSetgid = push_bit 22 1"

definition ModeSticky :: FileMode where
  "ModeSticky = push_bit 20 1"

definition ModePerm :: FileMode where
  "ModePerm = 511"

text \<open>\<open>tmpPermissionForDirectory = os.FileMode(0755)\<close>; octal 755 is 493.\<close>

definition tmpPermissionForDirectory :: FileMode where
  "tmpPermissionForDirectory = 493"

text \<open>An \<open>os.FileInfo\<close>, as far as the program reads it: \<open>Name()\<close>, \<open>Mode()\<close> and
  \<open>IsDir()\<close>, which is \<open>Mode()&ModeDir != 0\<close>.\<close>

record FileInfo =
  Name :: string
  Mode :: FileMode

definition IsDir :: "FileInfo \<Rightarrow> bool" where
  "IsDir info = (Mode info AND ModeDir \<noteq> 0)"

subsection \<open>Options\<close>

text \<open>Modelled from the spec: the type \<open>SymlinkAction\<close>, the struct \<open>Options\<close> and the
  value \<open>DefaultOptions\<close> are declared in a file of the package that is not among the
  sources. The spec gives the three policies Shallow, Deep and Skip, lets a policy
  answer something unrecognised (the \<open>default:\<close> branch of the switch in \<open>onsymlink\<close>),
  lets the policy hook be absent, and makes the default hook answer Shallow for every
  path.\<close>

datatype SymlinkAction = Shallow | Deep | Skip | Unrecognized nat

record Options =
  OnSymlink :: "(path \<Rightarrow> SymlinkAction) option"

definition DefaultOptions :: Options where
  "DefaultOptions = \<lparr>OnSymlink = Some (\<lambda>_. Shallow)\<rparr>"

subsection \<open>The operating system as a parameter\<close>

text \<open>Each call takes the world and returns its result with the new world. A call that
  returns \<open>(T, error)\<close> in Go returns \<open>'e + T\<close> here, \<open>Inl\<close> the error; a call that
  returns only an error returns \<open>'e option\<close>, \<open>None\<close> for \<open>nil\<close>. \<open>'h\<close> is the type of
  open files (\<open>*os.File\<close>); \<open>FileName\<close> is \<open>(*os.File).Name\<close>.\<close>

record ('w, 'h, 'e) OS =
  Lstat :: "path \<Rightarrow> 'w \<Rightarrow> ('e + FileInfo) \<times> 'w"
  MkdirAll :: "path \<Rightarrow> FileMode \<Rightarrow> 'w \<Rightarrow> 'e option \<times> 'w"
  Create :: "path \<Rightarrow> 'w \<Rightarrow> ('e + 'h) \<times> 'w"
  Chmod :: "path \<Rightarrow> FileMode \<Rightarrow> 'w \<Rightarrow> 'e option \<times> 'w"
  Open :: "path \<Rightarrow> 'w \<Rightarrow> ('e + 'h) \<times> 'w"
  IoCopy :: "'h \<Rightarrow> 'h \<Rightarrow> 'w \<Rightarrow> 'e option \<times> 'w"
  Close :: "'h \<Rightarrow> 'w \<Rightarrow> 'e option \<times> 'w"
  ReadDir :: "path \<Rightarrow> 'w \<Rightarrow> ('e + FileInfo list) \<times> 'w"
  Readlink :: "path \<Rightarrow> 'w \<Rightarrow> ('e + path) \<times> 'w"
  Symlink :: "path \<Rightarrow> path \<Rightarrow> 'w \<Rightarrow> 'e option \<times> 'w"
  FileName :: "'h \<Rightarrow> path"

text \<open>The program's state is the world together with the log of the calls made so
  far, each with its arguments and its result, oldest first.\<close>

datatype ('h, 'e) call =
    CallLstat path "'e + FileInfo"
  | CallMkdirAll path FileMode "'e option"
  | CallCreate path "'e + 'h"
  | CallChmod path FileMode "'e option"
  | CallOpen path "'e + 'h"
  | CallIoCopy 'h 'h "'e option"
  | CallClose 'h "'e option"
  | CallReadDir path "'e + FileInfo list"
  | CallReadlink path "'e + path"
  | CallSymlink path path "'e option"

record ('w, 'h, 'e) sys =
  world :: 'w
  trace :: "('h, 'e) call list"

definition logged :: "('r \<Rightarrow> ('h, 'e) call) \<Rightarrow> ('w \<Rightarrow> 'r \<times> 'w) \<Rightarrow>
    ('w, 'h, 'e) sys \<Rightarrow> 'r \<times> ('w, 'h, 'e) sys" where
  "logged ev f s =
     (case f (world s) of (r, w') \<Rightarrow> (r, \<lparr>world = w', trace = trace s @ [ev r]\<rparr>))"

definition os_Lstat :: "('w, 'h, 'e) OS \<Rightarrow> path \<Rightarrow> ('w, 'h, 'e) sys \<Rightarrow>
    ('e + FileInfo) \<times> ('w, 'h, 'e) sys" where
  "os_Lstat os p = logged (CallLstat p) (Lstat os p)"

definition os_MkdirAll :: "('w, 'h, 'e) OS \<Rightarrow> path \<Rightarrow> FileMode \<Rightarrow> ('w, 'h, 'e) sys \<Rightarrow>
    'e option \<times> ('w, 'h, 'e) sys" where
  "os_MkdirAll os p m = logged (CallMkdirAll p m) (MkdirAll os p m)"

definition os_Create :: "('w, 'h, 'e) OS \<Rightarrow> path \<Rightarrow> ('w, 'h, 'e) sys \<Rightarrow>
    ('e + 'h) \<times> ('w, 'h, 'e) sys" where
  "os_Create os p = logged (CallCreate p) (Create os p)"

definition os_Chmod :: "('w, 'h, 'e) OS \<Rightarrow> path \<Rightarrow> FileMode \<Rightarrow> ('w, 'h, 'e) sys \<Rightarrow>
    'e option \<times> ('w, 'h, 'e) sys" where
  "os_Chmod os p m = logged (CallChmod p m) (Chmod os p m)"

definition os_Open :: "('w, 'h, 'e) OS \<Rightarrow> path \<Rightarrow> ('w, 'h, 'e) sys \<Rightarrow>
    ('e + 'h) \<times> ('w, 'h, 'e) sys" where
  "os_Open os p = logged (CallOpen p) (Open os p)"

definition io_Copy :: "('w, 'h, 'e) OS \<Rightarrow> 'h \<Rightarrow> 'h \<Rightarrow> ('w, 'h, 'e) sys \<Rightarrow>
    'e option \<times> ('w, 'h, 'e) sys" where
  "io_Copy os dst src = logged (CallIoCopy dst src) (IoCopy os dst src)"

definition file_Close :: "('w, 'h, 'e) OS \<Rightarrow> 'h \<Rightarrow> ('w, 'h, 'e) sys \<Rightarrow>
    'e option \<times> ('w, 'h, 'e) sys" where
  "file_Close os f = logged (CallClose f) (Close os f)"

definition ioutil_ReadDir :: "('w, 'h, 'e) OS \<Rightarrow> path \<Rightarrow> ('w, 'h, 'e) sys \<Rightarrow>
    ('e + FileInfo list) \<times> ('w, 'h, 'e) sys" where
  "ioutil_ReadDir os p = logged (CallReadDir p) (ReadDir os p)"

definition os_Readlink :: "('w, 'h, 'e) OS \<Rightarrow> path \<Rightarrow> ('w, 'h, 'e) sys \<Rightarrow>
    ('e + path) \<times> ('w, 'h, 'e) sys" where
  "os_Readlink os p = logged (CallReadlink p) (Readlink os p)"

definition os_Symlink :: "('w, 'h, 'e) OS \<Rightarrow> path \<Rightarrow> path \<Rightarrow> ('w, 'h, 'e) sys \<Rightarrow>
    'e option \<times> ('w, 'h, 'e) sys" where
  "os_Symlink os old new = logged (CallSymlink old new) (Symlink os old new)"

subsection \<open>The path functions of \<open>path/filepath\<close> (Unix)\<close>

text \<open>The separator is \<open>/\<close>. \<open>splitSep\<close> cuts a path at every separator, so a path
  always has at least one element, possibly empty; \<open>joinSep\<close> is its inverse.\<close>

fun splitSep :: "path \<Rightarrow> string list" where
  "splitSep [] = [[]]"
| "splitSep (c # cs) =
     (if c = CHR ''/'' then [] # splitSep cs
      else (case splitSep cs of [] \<Rightarrow> [[c]] | x # xs \<Rightarrow> (c # x) # xs))"

fun joinSep :: "string list \<Rightarrow> path" where
  "joinSep [] = []"
| "joinSep [x] = x"
| "joinSep (x # y # ys) = x @ CHR ''/'' # joinSep (y # ys)"

text \<open>\<open>filepath.Clean\<close>: empty elements and \<open>.\<close> are dropped, \<open>..\<close> removes the element
  before it, is dropped at the root of a rooted path and is kept at the front of a
  relative one; the empty result is \<open>.\<close>.\<close>

definition cleanStep :: "bool \<Rightarrow> string list \<Rightarrow> string \<Rightarrow> string list" where
  "cleanStep rooted out e =
     (if e = [] \<or> e = ''.'' then out
      else if e = ''..'' then
        (if out \<noteq> [] \<and> last out \<noteq> ''..'' then butlast out
         else if rooted then out
         else out @ [e])
      else out @ [e])"

definition filepath_Clean :: "path \<Rightarrow> path" where
  "filepath_Clean p =
     (if p = [] then ''.''
      else
        (let rooted = (hd p = CHR ''/'');
             out = foldl (cleanStep rooted) [] (splitSep p)
         in if rooted then CHR ''/'' # joinSep out
            else if out = [] then ''.''
            else joinSep out))"

text \<open>\<open>filepath.Join\<close> of two elements: empty elements are ignored, the rest is joined
  with a separator and cleaned; nothing at all gives the empty string.\<close>

definition filepath_Join :: "path \<Rightarrow> path \<Rightarrow> path" where
  "filepath_Join a b =
     (if a = [] \<and> b = [] then []
      else if a = [] then filepath_Clean b
      else if b = [] then filepath_Clean a
      else filepath_Clean (a @ CHR ''/'' # b))"

text \<open>\<open>filepath.Dir\<close>: everything up to and including the last separator, cleaned.\<close>

definition filepath_Dir :: "path \<Rightarrow> path" where
  "filepath_Dir p = filepath_Clean (rev (dropWhile (\<lambda>c. c \<noteq> CHR ''/'') (rev p)))"

text \<open>\<open>filepath.FromSlash\<close> replaces each slash by the separator: the identity here.\<close>

definition filepath_FromSlash :: "path \<Rightarrow> path" where
  "filepath_FromSlash p = map (\<lambda>c. if c = CHR ''/'' then CHR ''/'' else c) p"

subsection \<open>The deferred helpers\<close>

text \<open>\<open>fclose\<close> and \<open>chmod\<close> run as deferred calls on the named result \<open>err\<close>: they
  take the error reported so far and the state, always make their system call, and
  store its error only when none was reported.\<close>

definition fclose :: "('w, 'h, 'e) OS \<Rightarrow> 'h \<Rightarrow> 'e option \<times> ('w, 'h, 'e) sys \<Rightarrow>
    'e option \<times> ('w, 'h, 'e) sys" where
  "fclose os f rs =
     (case rs of (reported, s) \<Rightarrow>
        (case file_Close os f s of (err, s') \<Rightarrow>
           (if reported = None then err else reported, s')))"

definition chmod :: "('w, 'h, 'e) OS \<Rightarrow> path \<Rightarrow> FileMode \<Rightarrow> 'e option \<times> ('w, 'h, 'e) sys \<Rightarrow>
    'e option \<times> ('w, 'h, 'e) sys" where
  "chmod os dir mode rs =
     (case rs of (reported, s) \<Rightarrow>
        (case os_Chmod os dir mode s of (err, s') \<Rightarrow>
           (if reported = None then err else reported, s')))"

subsection \<open>Files and links\<close>

definition fcopy :: "('w, 'h, 'e) OS \<Rightarrow> path \<Rightarrow> path \<Rightarrow> FileInfo \<Rightarrow> ('w, 'h, 'e) sys \<Rightarrow>
    'e option \<times> ('w, 'h, 'e) sys" where
  "fcopy os src dest info s =
     (case os_MkdirAll os (filepath_Dir dest) ModePerm s of
        (Some err, s1) \<Rightarrow> (Some err, s1)
      | (None, s1) \<Rightarrow>
          (case os_Create os dest s1 of
             (Inl err, s2) \<Rightarrow> (Some err, s2)
           | (Inr f, s2) \<Rightarrow>
               fclose os f
                 (case os_Chmod os (FileName os f) (Mode info) s2 of
                    (Some err, s3) \<Rightarrow> (Some err, s3)
                  | (None, s3) \<Rightarrow>
                      (case os_Open os src s3 of
                         (Inl err, s4) \<Rightarrow> (Some err, s4)
                       | (Inr sf, s4) \<Rightarrow> fclose os sf (io_Copy os f sf s4)))))"

definition lcopy :: "('w, 'h, 'e) OS \<Rightarrow> path \<Rightarrow> path \<Rightarrow> ('w, 'h, 'e) sys \<Rightarrow>
    'e option \<times> ('w, 'h, 'e) sys" where
  "lcopy os src dest s =
     (case os_Readlink os src s of
        (Inl err, s1) \<Rightarrow> (Some err, s1)
      | (Inr target, s1) \<Rightarrow> os_Symlink os target dest s1)"

subsection \<open>The dispatcher, directories and the symlink policy\<close>

text \<open>\<open>copy\<close>, \<open>dcopy\<close> and \<open>onsymlink\<close> call each other, and nothing bounds the depth:
  a link that points to itself under the Deep policy, or a destination inside the
  source, recurse without end. The first argument bounds the depth of calls of
  \<open>copy\<close> from inside \<open>copy\<close>; the result \<open>None\<close> says that the bound was reached, or
  that the call does not return for another reason (a \<open>nil\<close> policy hook called).
  \<open>dcopy_loop\<close> is the \<open>for ... range contents\<close> loop of \<open>dcopy\<close>.\<close>

function (sequential)
  copy :: "('w, 'h, 'e) OS \<Rightarrow> nat \<Rightarrow> path \<Rightarrow> path \<Rightarrow> path set \<Rightarrow> FileInfo \<Rightarrow> Options \<Rightarrow>
    ('w, 'h, 'e) sys \<Rightarrow> ('e option \<times> ('w, 'h, 'e) sys) option"
and dcopy :: "('w, 'h, 'e) OS \<Rightarrow> nat \<Rightarrow> path \<Rightarrow> path \<Rightarrow> path set \<Rightarrow> FileInfo \<Rightarrow> Options \<Rightarrow>
    ('w, 'h, 'e) sys \<Rightarrow> ('e option \<times> ('w, 'h, 'e) sys) option"
and dcopy_loop :: "('w, 'h, 'e) OS \<Rightarrow> nat \<Rightarrow> path \<Rightarrow> path \<Rightarrow> path set \<Rightarrow> Options \<Rightarrow>
    FileInfo list \<Rightarrow> ('w, 'h, 'e) sys \<Rightarrow> ('e option \<times> ('w, 'h, 'e) sys) option"
and onsymlink :: "('w, 'h, 'e) OS \<Rightarrow> nat \<Rightarrow> path \<Rightarrow> path \<Rightarrow> FileInfo \<Rightarrow> Options \<Rightarrow>
    ('w, 'h, 'e) sys \<Rightarrow> ('e option \<times> ('w, 'h, 'e) sys) option"
where
  "copy os n src dest toSkip info opt s =
     (if src \<in> toSkip then Some (None, s)
      else if Mode info AND ModeSymlink \<noteq> 0 then onsymlink os n src dest info opt s
      else if IsDir info then dcopy os n src dest toSkip info opt s
      else Some (fcopy os src dest info s))"
| "dcopy os n srcdir destdir toSkip info opt s =
     (let originalMode = Mode info in
      case os_MkdirAll os destdir tmpPermissionForDirectory s of
        (Some err, s1) \<Rightarrow> Some (Some err, s1)
      | (None, s1) \<Rightarrow>
          map_option (chmod os destdir originalMode)
            (case ioutil_ReadDir os srcdir s1 of
               (Inl err, s2) \<Rightarrow> Some (Some err, s2)
             | (Inr contents, s2) \<Rightarrow> dcopy_loop os n srcdir destdir toSkip opt contents s2))"
| "dcopy_loop os n srcdir destdir toSkip opt [] s = Some (None, s)"
| "dcopy_loop os n srcdir destdir toSkip opt (content # rest) s =
     (let cs = filepath_Join srcdir (Name content);
          cd = filepath_Join destdir (Name content)
      in case n of
           0 \<Rightarrow> None
         | Suc m \<Rightarrow>
             (case copy os m cs cd toSkip content opt s of
                None \<Rightarrow> None
              | Some (Some err, s') \<Rightarrow> Some (Some err, s')
              | Some (None, s') \<Rightarrow> dcopy_loop os n srcdir destdir toSkip opt rest s'))"
| "onsymlink os n src dest info opt s =
     (let opt = (if OnSymlink opt = None
                 then opt\<lparr>OnSymlink := OnSymlink DefaultOptions\<rparr> else opt)
      in case OnSymlink opt of
           None \<Rightarrow> None
         | Some policy \<Rightarrow>
             (case policy src of
                Shallow \<Rightarrow> Some (lcopy os src dest s)
              | Deep \<Rightarrow>
                  (case os_Readlink os src s of
                     (Inl err, s1) \<Rightarrow> Some (Some err, s1)
                   | (Inr orig, s1) \<Rightarrow>
                       (case os_Lstat os orig s1 of
                          (Inl err, s2) \<Rightarrow> Some (Some err, s2)
                        | (Inr info, s2) \<Rightarrow>
                            (case n of
                               0 \<Rightarrow> None
                             | Suc m \<Rightarrow> copy os m orig dest {} info opt s2)))
              | Skip \<Rightarrow> Some (None, s)
              | Unrecognized _ \<Rightarrow> Some (None, s)))"
  by pat_completeness auto
termination
  by (relation "inv_image (less_than <*lex*> less_than <*lex*> less_than)
        (\<lambda>x. case x of
           Inl (Inl (os, n, src, dest, toSkip, info, opt, s)) \<Rightarrow> (n, 3::nat, 0::nat)
         | Inl (Inr (os, n, srcdir, destdir, toSkip, info, opt, s)) \<Rightarrow> (n, 2, 0)
         | Inr (Inl (os, n, srcdir, destdir, toSkip, opt, contents, s)) \<Rightarrow>
             (n, 1, length contents)
         | Inr (Inr (os, n, src, dest, info, opt, s)) \<Rightarrow> (n, 2, 0))")
     auto

declare copy.simps [simp del] dcopy.simps [simp del] dcopy_loop.simps [simp del]
  onsymlink.simps [simp del]

subsection \<open>The entry points\<close>

definition CopyButSkipSome :: "('w, 'h, 'e) OS \<Rightarrow> nat \<Rightarrow> path \<Rightarrow> path \<Rightarrow> path list \<Rightarrow>
    Options list \<Rightarrow> ('w, 'h, 'e) sys \<Rightarrow> ('e option \<times> ('w, 'h, 'e) sys) option" where
  "CopyButSkipSome os n src dest toSkip opt s =
     (let toSkipMap = foldl (\<lambda>m p. insert (filepath_FromSlash p) m) {} toSkip;
          opt = opt @ [DefaultOptions]
      in case os_Lstat os src s of
           (Inl err, s1) \<Rightarrow> Some (Some err, s1)
         | (Inr info, s1) \<Rightarrow> copy os n src dest toSkipMap info (opt ! 0) s1)"

definition Copy :: "('w, 'h, 'e) OS \<Rightarrow> nat \<Rightarrow> path \<Rightarrow> path \<Rightarrow> Options list \<Rightarrow>
    ('w, 'h, 'e) sys \<Rightarrow> ('e option \<times> ('w, 'h, 'e) sys) option" where
  "Copy os n src dest opt s = CopyButSkipSome os n src dest [] opt s"


section \<open>What the log of calls says\<close>

text \<open>The error a call returned, if it failed.\<close>

fun call_error :: "('h, 'e) call \<Rightarrow> 'e option" where
  "call_error (CallLstat p r) = (case r of Inl e \<Rightarrow> Some e | Inr _ \<Rightarrow> None)"
| "call_error (CallMkdirAll p m r) = r"
| "call_error (CallCreate p r) = (case r of Inl e \<Rightarrow> Some e | Inr _ \<Rightarrow> None)"
| "call_error (CallChmod p m r) = r"
| "call_error (CallOpen p r) = (case r of Inl e \<Rightarrow> Some e | Inr _ \<Rightarrow> None)"
| "call_error (CallIoCopy d f r) = r"
| "call_error (CallClose f r) = r"
| "call_error (CallReadDir p r) = (case r of Inl e \<Rightarrow> Some e | Inr _ \<Rightarrow> None)"
| "call_error (CallReadlink p r) = (case r of Inl e \<Rightarrow> Some e | Inr _ \<Rightarrow> None)"
| "call_error (CallSymlink old new r) = r"

text \<open>The first error in temporal order.\<close>

fun first_error :: "('h, 'e) call list \<Rightarrow> 'e option" where
  "first_error [] = None"
| "first_error (c # cs) = (case call_error c of Some e \<Rightarrow> Some e | None \<Rightarrow> first_error cs)"

text \<open>The files left open by a sequence of calls, the latest first: a successful
  \<open>Create\<close> or \<open>Open\<close> pushes its file, a \<open>Close\<close> must be of the latest file still open
  and pops it. \<open>None\<close> says that some \<open>Close\<close> was of another file, or of none.\<close>

fun open_files :: "'h list \<Rightarrow> ('h, 'e) call list \<Rightarrow> 'h list option" where
  "open_files st [] = Some st"
| "open_files st (CallCreate p (Inr f) # cs) = open_files (f # st) cs"
| "open_files st (CallOpen p (Inr f) # cs) = open_files (f # st) cs"
| "open_files st (CallClose f r # cs) =
     (case st of [] \<Rightarrow> None | g # st' \<Rightarrow> if f = g then open_files st' cs else None)"
| "open_files st (c # cs) = open_files st cs"

text \<open>The path a call reads on the source side: what is stat'd, opened for reading,
  listed, or read as a link.\<close>

fun source_path :: "('h, 'e) call \<Rightarrow> path option" where
  "source_path (CallLstat p r) = Some p"
| "source_path (CallOpen p r) = Some p"
| "source_path (CallReadDir p r) = Some p"
| "source_path (CallReadlink p r) = Some p"
| "source_path c = None"

fun is_Lstat :: "('h, 'e) call \<Rightarrow> bool" where
  "is_Lstat (CallLstat p r) = True"
| "is_Lstat c = False"

text \<open>The calls a run added to the log.\<close>

definition new_calls :: "('w, 'h, 'e) sys \<Rightarrow> ('w, 'h, 'e) sys \<Rightarrow> ('h, 'e) call list" where
  "new_calls s s' = drop (length (trace s)) (trace s')"

text \<open>A run from \<open>s\<close> to \<open>s'\<close> with result \<open>r\<close> is in order when it only added calls to
  the log, \<open>r\<close> is the first error among them, and it closed the files it opened.\<close>

definition run_ok :: "('w, 'h, 'e) sys \<Rightarrow> 'e option \<Rightarrow> ('w, 'h, 'e) sys \<Rightarrow> bool" where
  "run_ok s r s' = (\<exists>evs. trace s' = trace s @ evs \<and> r = first_error evs \<and>
      (\<forall>st. open_files st evs = Some st))"

text \<open>A run keeps off the paths in \<open>S\<close> when none of the calls it added reads a path of
  \<open>S\<close>, unless it made a call of \<open>Lstat\<close>: the dispatcher and what it calls use \<open>Lstat\<close>
  for one thing only, to look at the target of a link under the Deep policy.\<close>

definition avoids :: "path set \<Rightarrow> ('w, 'h, 'e) sys \<Rightarrow> ('w, 'h, 'e) sys \<Rightarrow> bool" where
  "avoids S s s' = (\<exists>evs. trace s' = trace s @ evs \<and>
      ((\<exists>c\<in>set evs. is_Lstat c) \<or> (\<forall>c\<in>set evs. \<forall>p. source_path c = Some p \<longrightarrow> p \<notin> S)))"



section \<open>An in-memory filesystem\<close>

text \<open>
  A concrete operating system for the record above. It keeps regular files,
  directories and symbolic links under absolute keys (the list of the names from the
  root), and it is deliberately small:
  \<^item> a path is resolved lexically, the way \<open>filepath.Clean\<close> reads it, from the root,
    which is also the working directory;
  \<^item> every directory above the entry must exist; a symbolic link is never followed,
    and a call that would have to follow one fails with \<open>ELOOP\<close>;
  \<^item> permission bits are stored and reported, not enforced: a failure they, or the
    disk, or anything else outside the model would cause is a fault the environment
    injects. Before each call the next slot of \<open>faults\<close> is consumed; \<open>Some e\<close> makes the
    call fail with \<open>e\<close> and no effect, \<open>None\<close> (or no slot left) lets it run.
\<close>

datatype errno = ENOENT | EEXIST | ENOTDIR | EISDIR | EINVAL | ELOOP | EBADF | EACCES | EIO | ENOSPC

datatype node = File "8 word list" FileMode | Dir FileMode | Link path

type_synonym key = "string list"

record fsys =
  entries :: "(key \<times> node) list"
  umask :: FileMode

record memfs =
  files :: fsys
  faults :: "errno option list"

record handle =
  hname :: path
  hkey :: key

definition lookup :: "fsys \<Rightarrow> key \<Rightarrow> node option" where
  "lookup fs k = map_of (entries fs) k"

text \<open>An entry is replaced where it stands; a new one goes to the end.\<close>

fun put :: "key \<Rightarrow> node \<Rightarrow> (key \<times> node) list \<Rightarrow> (key \<times> node) list" where
  "put k nd [] = [(k, nd)]"
| "put k nd (e # es) = (if fst e = k then (k, nd) # es else e # put k nd es)"

definition store :: "fsys \<Rightarrow> key \<Rightarrow> node \<Rightarrow> fsys" where
  "store fs k nd = fs\<lparr>entries := put k nd (entries fs)\<rparr>"

text \<open>The bits \<open>os.Chmod\<close> sets and \<open>os.Lstat\<close> reports besides the type: the nine
  permission bits, setuid, setgid and sticky.\<close>

definition chmodBits :: FileMode where
  "chmodBits = ModePerm OR ModeSetuid OR ModeSetgid OR ModeSticky"

fun node_mode :: "node \<Rightarrow> FileMode" where
  "node_mode (File c m) = m AND chmodBits"
| "node_mode (Dir m) = ModeDir OR (m AND chmodBits)"
| "node_mode (Link t) = ModeSymlink OR ModePerm"

definition keyOf :: "path \<Rightarrow> key" where
  "keyOf p = foldl (cleanStep True) [] (splitSep p)"

text \<open>\<open>walk fs cur es\<close> descends from \<open>cur\<close> along \<open>es\<close>; everything it leaves behind
  must be a directory. The entry it arrives at may be anything, or missing.\<close>

fun walk :: "fsys \<Rightarrow> key \<Rightarrow> string list \<Rightarrow> errno + key" where
  "walk fs cur [] = Inr cur"
| "walk fs cur (e # es) =
     (case lookup fs cur of
        Some (Dir m) \<Rightarrow> walk fs (cur @ [e]) es
      | Some (File c m) \<Rightarrow> Inl ENOTDIR
      | Some (Link t) \<Rightarrow> Inl ELOOP
      | None \<Rightarrow> Inl ENOENT)"

definition resolve :: "fsys \<Rightarrow> path \<Rightarrow> errno + key" where
  "resolve fs p = (if p = [] then Inl ENOENT else walk fs [] (keyOf p))"

definition fs_Lstat :: "path \<Rightarrow> fsys \<Rightarrow> (errno + FileInfo) \<times> fsys" where
  "fs_Lstat p fs =
     (case resolve fs p of
        Inl e \<Rightarrow> Inl e
      | Inr k \<Rightarrow>
          (case lookup fs k of
             None \<Rightarrow> Inl ENOENT
           | Some nd \<Rightarrow> Inr \<lparr>Name = (if k = [] then ''/'' else last k), Mode = node_mode nd\<rparr>),
      fs)"

text \<open>\<open>os.MkdirAll\<close>: the directories that are missing along the path are created, with
  the mode asked for less the umask; a file in the way is an error.\<close>

fun mkdirs :: "fsys \<Rightarrow> FileMode \<Rightarrow> key \<Rightarrow> string list \<Rightarrow> errno + fsys" where
  "mkdirs fs perm cur es =
     (case lookup fs cur of
        Some (Dir m) \<Rightarrow>
          (case es of [] \<Rightarrow> Inr fs | e # es' \<Rightarrow> mkdirs fs perm (cur @ [e]) es')
      | Some (File c m) \<Rightarrow> Inl ENOTDIR
      | Some (Link t) \<Rightarrow> Inl ELOOP
      | None \<Rightarrow>
          (case es of
             [] \<Rightarrow> Inr (store fs cur (Dir (perm AND chmodBits AND NOT (umask fs))))
           | e # es' \<Rightarrow>
               mkdirs (store fs cur (Dir (perm AND chmodBits AND NOT (umask fs))))
                 perm (cur @ [e]) es'))"

declare mkdirs.simps [simp del]

definition fs_MkdirAll :: "path \<Rightarrow> FileMode \<Rightarrow> fsys \<Rightarrow> errno option \<times> fsys" where
  "fs_MkdirAll p perm fs =
     (if p = [] then (Some ENOENT, fs)
      else (case mkdirs fs perm [] (keyOf p) of
              Inl e \<Rightarrow> (Some e, fs)
            | Inr fs' \<Rightarrow> (None, fs')))"

text \<open>\<open>os.Create\<close> opens with \<open>O_RDWR|O_CREATE|O_TRUNC\<close> and mode 0666 (438): a new
  file is made empty, an existing one is emptied and keeps its mode.\<close>

definition fs_Create :: "path \<Rightarrow> fsys \<Rightarrow> (errno + handle) \<times> fsys" where
  "fs_Create p fs =
     (case resolve fs p of
        Inl e \<Rightarrow> (Inl e, fs)
      | Inr k \<Rightarrow>
          (case lookup fs k of
             None \<Rightarrow> (Inr \<lparr>hname = p, hkey = k\<rparr>, store fs k (File [] (438 AND NOT (umask fs))))
           | Some (File c m) \<Rightarrow> (Inr \<lparr>hname = p, hkey = k\<rparr>, store fs k (File [] m))
           | Some (Dir m) \<Rightarrow> (Inl EISDIR, fs)
           | Some (Link t) \<Rightarrow> (Inl ELOOP, fs)))"

definition fs_Chmod :: "path \<Rightarrow> FileMode \<Rightarrow> fsys \<Rightarrow> errno option \<times> fsys" where
  "fs_Chmod p mode fs =
     (case resolve fs p of
        Inl e \<Rightarrow> (Some e, fs)
      | Inr k \<Rightarrow>
          (case lookup fs k of
             None \<Rightarrow> (Some ENOENT, fs)
           | Some (File c m) \<Rightarrow> (None, store fs k (File c (mode AND chmodBits)))
           | Some (Dir m) \<Rightarrow> (None, store fs k (Dir (mode AND chmodBits)))
           | Some (Link t) \<Rightarrow> (Some ELOOP, fs)))"

definition fs_Open :: "path \<Rightarrow> fsys \<Rightarrow> (errno + handle) \<times> fsys" where
  "fs_Open p fs =
     (case resolve fs p of
        Inl e \<Rightarrow> Inl e
      | Inr k \<Rightarrow>
          (case lookup fs k of
             None \<Rightarrow> Inl ENOENT
           | Some (Link t) \<Rightarrow> Inl ELOOP
           | Some nd \<Rightarrow> Inr \<lparr>hname = p, hkey = k\<rparr>),
      fs)"

text \<open>\<open>io.Copy(dst, src)\<close> on two files just opened: the bytes of the source are
  written over the destination from its start.\<close>

definition fs_IoCopy :: "handle \<Rightarrow> handle \<Rightarrow> fsys \<Rightarrow> errno option \<times> fsys" where
  "fs_IoCopy dst src fs =
     (case lookup fs (hkey src) of
        Some (File c m) \<Rightarrow>
          (case lookup fs (hkey dst) of
             Some (File d m') \<Rightarrow> (None, store fs (hkey dst) (File (c @ drop (length c) d) m'))
           | _ \<Rightarrow> (Some EBADF, fs))
      | Some (Dir m) \<Rightarrow> (Some EISDIR, fs)
      | _ \<Rightarrow> (Some EBADF, fs))"

definition fs_Close :: "handle \<Rightarrow> fsys \<Rightarrow> errno option \<times> fsys" where
  "fs_Close f fs = (None, fs)"

text \<open>\<open>ioutil.ReadDir\<close> returns the entries of a directory sorted by name. A name is
  never empty, \<open>.\<close> or \<open>..\<close>, and holds no separator.\<close>

definition valid_name :: "string \<Rightarrow> bool" where
  "valid_name n = (n \<noteq> [] \<and> n \<noteq> ''.'' \<and> n \<noteq> ''..'' \<and> CHR ''/'' \<notin> set n)"

definition names_in :: "fsys \<Rightarrow> key \<Rightarrow> string list" where
  "names_in fs k =
     sort (remdups (filter valid_name (map (\<lambda>e. last (fst e))
       (filter (\<lambda>e. fst e \<noteq> [] \<and> butlast (fst e) = k) (entries fs)))))"

definition infos :: "fsys \<Rightarrow> key \<Rightarrow> FileInfo list" where
  "infos fs k =
     concat (map (\<lambda>n. case lookup fs (k @ [n]) of
                        None \<Rightarrow> []
                      | Some nd \<Rightarrow> [\<lparr>Name = n, Mode = node_mode nd\<rparr>]) (names_in fs k))"

definition fs_ReadDir :: "path \<Rightarrow> fsys \<Rightarrow> (errno + FileInfo list) \<times> fsys" where
  "fs_ReadDir p fs =
     (case resolve fs p of
        Inl e \<Rightarrow> Inl e
      | Inr k \<Rightarrow>
          (case lookup fs k of
             None \<Rightarrow> Inl ENOENT
           | Some (File c m) \<Rightarrow> Inl ENOTDIR
           | Some (Link t) \<Rightarrow> Inl ELOOP
           | Some (Dir m) \<Rightarrow> Inr (infos fs k)),
      fs)"

definition fs_Readlink :: "path \<Rightarrow> fsys \<Rightarrow> (errno + path) \<times> fsys" where
  "fs_Readlink p fs =
     (case resolve fs p of
        Inl e \<Rightarrow> Inl e
      | Inr k \<Rightarrow>
          (case lookup fs k of
             None \<Rightarrow> Inl ENOENT
           | Some (Link t) \<Rightarrow> Inr t
           | Some nd \<Rightarrow> Inl EINVAL),
      fs)"

text \<open>\<open>os.Symlink\<close> refuses to replace anything that exists.\<close>

definition fs_Symlink :: "path \<Rightarrow> path \<Rightarrow> fsys \<Rightarrow> errno option \<times> fsys" where
  "fs_Symlink old new fs =
     (if old = [] then (Some ENOENT, fs)
      else (case resolve fs new of
              Inl e \<Rightarrow> (Some e, fs)
            | Inr k \<Rightarrow>
                (case lookup fs k of
                   None \<Rightarrow> (None, store fs k (Link old))
                 | Some nd \<Rightarrow> (Some EEXIST, fs))))"

text \<open>A call first consumes its fault slot.\<close>

definition with_fault :: "(errno \<Rightarrow> 'r) \<Rightarrow> (fsys \<Rightarrow> 'r \<times> fsys) \<Rightarrow> memfs \<Rightarrow> 'r \<times> memfs" where
  "with_fault err f w =
     (case faults w of
        Some e # rest \<Rightarrow> (err e, \<lparr>files = files w, faults = rest\<rparr>)
      | _ \<Rightarrow> (case f (files w) of (r, fs') \<Rightarrow> (r, \<lparr>files = fs', faults = tl (faults w)\<rparr>)))"

definition memfs_os :: "(memfs, handle, errno) OS" where
  "memfs_os = \<lparr>
     Lstat = (\<lambda>p. with_fault Inl (fs_Lstat p)),
     MkdirAll = (\<lambda>p perm. with_fault Some (fs_MkdirAll p perm)),
     Create = (\<lambda>p. with_fault Inl (fs_Create p)),
     Chmod = (\<lambda>p mode. with_fault Some (fs_Chmod p mode)),
     Open = (\<lambda>p. with_fault Inl (fs_Open p)),
     IoCopy = (\<lambda>dst src. with_fault Some (fs_IoCopy dst src)),
     Close = (\<lambda>f. with_fault Some (fs_Close f)),
     ReadDir = (\<lambda>p. with_fault Inl (fs_ReadDir p)),
     Readlink = (\<lambda>p. with_fault Inl (fs_Readlink p)),
     Symlink = (\<lambda>old new. with_fault Some (fs_Symlink old new)),
     FileName = hname\<rparr>"

text \<open>A run starts with an empty log.\<close>

definition boot :: "fsys \<Rightarrow> errno option list \<Rightarrow> (memfs, handle, errno) sys" where
  "boot fs fl = \<lparr>world = \<lparr>files = fs, faults = fl\<rparr>, trace = []\<rparr>"

text \<open>The permission bits of an entry, as \<open>Lstat\<close> reports them.\<close>

definition perm_bits :: "node \<Rightarrow> FileMode" where
  "perm_bits nd = node_mode nd AND chmodBits"

subsection \<open>A small tree to run the program on\<close>

text \<open>A read-only directory \<open>a\<close> (mode 0555) with a private subdirectory \<open>b\<close> (0700)
  holding the file \<open>g\<close> (0600), a file \<open>f\<close> (0644) and a link \<open>l\<close> to \<open>a/b\<close>; the umask
  is 022.\<close>

definition demo_fs :: fsys where
  "demo_fs = \<lparr>entries = [([], Dir 493), ([''a''], Dir 365), ([''a'', ''b''], Dir 448),
     ([''a'', ''b'', ''g''], File [7] 384), ([''a'', ''f''], File [1, 2, 3] 420),
     ([''a'', ''l''], Link ''a/b'')], umask = 18\<rparr>"

definition deep_options :: Options where
  "deep_options = \<lparr>OnSymlink = Some (\<lambda>_. Deep)\<rparr>"

text \<open>The descriptors \<open>Lstat\<close> gives for \<open>a\<close>, \<open>a/b\<close>, \<open>a/f\<close> and \<open>a/l\<close>.\<close>

definition info_a :: FileInfo where
  "info_a = \<lparr>Name = ''a'', Mode = 2147484013\<rparr>"

definition info_b :: FileInfo where
  "info_b = \<lparr>Name = ''b'', Mode = 2147484096\<rparr>"

definition info_f :: FileInfo where
  "info_f = \<lparr>Name = ''f'', Mode = 420\<rparr>"

definition info_l :: FileInfo where
  "info_l = \<lparr>Name = ''l'', Mode = 134218239\<rparr>"

text \<open>\<open>demo_fs\<close> with more entries at the end, and the file that \<open>Create\<close> and \<open>Open\<close>
  return for a path.\<close>

definition demo_plus :: "(key \<times> node) list \<Rightarrow> fsys" where
  "demo_plus extra = \<lparr>entries = entries demo_fs @ extra, umask = umask demo_fs\<rparr>"

definition handle_of :: "path \<Rightarrow> handle" where
  "handle_of p = \<lparr>hname = p, hkey = keyOf p\<rparr>"

definition finished :: "fsys \<Rightarrow> (handle, errno) call list \<Rightarrow> (memfs, handle, errno) sys" where
  "finished fs calls = \<lparr>world = \<lparr>files = fs, faults = []\<rparr>, trace = calls\<rparr>"

text \<open>The calls of \<open>fcopy\<close> when nothing fails.\<close>

definition fcopy_calls :: "path \<Rightarrow> path \<Rightarrow> FileMode \<Rightarrow> (handle, errno) call list" where
  "fcopy_calls src dest mode =
     [CallMkdirAll (filepath_Dir dest) 511 None,
      CallCreate dest (Inr (handle_of dest)),
      CallChmod dest mode None,
      CallOpen src (Inr (handle_of src)),
      CallIoCopy (handle_of dest) (handle_of src) None,
      CallClose (handle_of src) None,
      CallClose (handle_of dest) None]"

text \<open>Faults for three runs: both \<open>Close\<close> calls of a file copy fail; the restoring
  \<open>Chmod\<close> of a directory copy fails; the \<open>Create\<close> of the second child of \<open>a\<close> fails.\<close>

definition close_faults :: "errno option list" where
  "close_faults = [None, None, None, None, None, Some EIO, Some ENOSPC]"

definition chmod_faults :: "errno option list" where
  "chmod_faults = [None, None, None, None, None, None, None, None, None, Some EACCES]"

definition create_faults :: "errno option list" where
  "create_faults = replicate 13 None @ [Some ENOSPC]"

text \<open>The states the third run goes through: after the directory \<open>out\<close> is made, after
  \<open>a\<close> is listed, after the first child \<open>b\<close> is copied, after the copy of the second
  child \<open>f\<close> has failed.\<close>

definition run_made :: "(memfs, handle, errno) sys" where
  "run_made = \<lparr>world = \<lparr>files = demo_plus [([''out''], Dir 493)], faults = replicate 12 None @ [Some ENOSPC]\<rparr>,
     trace = [CallMkdirAll ''out'' 493 None]\<rparr>"

definition run_listed :: "(memfs, handle, errno) sys" where
  "run_listed = \<lparr>world = \<lparr>files = demo_plus [([''out''], Dir 493)], faults = replicate 11 None @ [Some ENOSPC]\<rparr>,
     trace = [CallMkdirAll ''out'' 493 None, CallReadDir ''a'' (Inr [info_b, info_f, info_l])]\<rparr>"

definition run_first :: "(memfs, handle, errno) sys" where
  "run_first = \<lparr>world = \<lparr>files = demo_plus [([''out''], Dir 493), ([''out'', ''b''], Dir 448),
        ([''out'', ''b'', ''g''], File [7] 384)], faults = [None, Some ENOSPC]\<rparr>,
     trace = [CallMkdirAll ''out'' 493 None, CallReadDir ''a'' (Inr [info_b, info_f, info_l]),
        CallMkdirAll ''out/b'' 493 None,
        CallReadDir ''a/b'' (Inr [\<lparr>Name = ''g'', Mode = 384\<rparr>])] @
        fcopy_calls ''a/b/g'' ''out/b/g'' 384 @
        [CallChmod ''out/b'' 2147484096 None]\<rparr>"

definition run_failed :: "(memfs, handle, errno) sys" where
  "run_failed = \<lparr>world = \<lparr>files = demo_plus [([''out''], Dir 493), ([''out'', ''b''], Dir 448),
        ([''out'', ''b'', ''g''], File [7] 384)], faults = []\<rparr>,
     trace = trace run_first @ [CallMkdirAll ''out'' 511 None, CallCreate ''out/f'' (Inl ENOSPC)]\<rparr>"

section \<open>Properties of the control flow, for every operating system\<close>

subsection \<open>Logs of runs\<close>

lemma logged_trace: "logged ev f s = (r, s') \<Longrightarrow> trace s' = trace s @ [ev r]"
  by (auto simp: logged_def split: prod.splits)

lemma first_error_append:
  "first_error (a @ b) = (case first_error a of Some e \<Rightarrow> Some e | None \<Rightarrow> first_error b)"
  by (induction a) (auto split: option.splits)

lemma open_files_append:
  "open_files st (a @ b) =
     (case open_files st a of None \<Rightarrow> None | Some st' \<Rightarrow> open_files st' b)"
  by (induction st a rule: open_files.induct) (auto split: list.splits)


lemma run_ok_refl: "run_ok s None s"
  by (simp add: run_ok_def)

lemma run_ok_trans: "run_ok s None s1 \<Longrightarrow> run_ok s1 r s2 \<Longrightarrow> run_ok s r s2"
  unfolding run_ok_def
  apply (elim exE conjE)
  subgoal for evs evs'
    by (rule exI[of _ "evs @ evs'"]) (simp add: first_error_append open_files_append)
  done

lemma run_ok_trace: "run_ok s r s' \<Longrightarrow> \<exists>evs. trace s' = trace s @ evs"
  by (auto simp: run_ok_def)

lemma fcopy_run_ok: "fcopy os src dest info s = (r, s') \<Longrightarrow> run_ok s r s'"
  unfolding fcopy_def fclose_def os_MkdirAll_def os_Create_def os_Chmod_def os_Open_def
    io_Copy_def file_Close_def run_ok_def
  by (auto split: prod.splits option.splits sum.splits if_splits dest!: logged_trace)

lemma lcopy_run_ok: "lcopy os src dest s = (r, s') \<Longrightarrow> run_ok s r s'"
  unfolding lcopy_def os_Readlink_def os_Symlink_def run_ok_def
  by (auto split: prod.splits option.splits sum.splits if_splits dest!: logged_trace)

lemma chmod_run_ok:
  "run_ok s r s1 \<Longrightarrow> chmod os dir mode (r, s1) = (r', s2) \<Longrightarrow> run_ok s r' s2"
  unfolding chmod_def os_Chmod_def run_ok_def
  by (auto split: prod.splits option.splits if_splits dest!: logged_trace
      simp: first_error_append open_files_append)

lemma MkdirAll_run_ok: "os_MkdirAll os p m s = (r, s') \<Longrightarrow> run_ok s r s'"
  unfolding os_MkdirAll_def run_ok_def
  by (auto dest!: logged_trace split: option.splits)

lemma ReadDir_run_ok:
  "ioutil_ReadDir os p s = (r, s') \<Longrightarrow>
   run_ok s (case r of Inl e \<Rightarrow> Some e | Inr _ \<Rightarrow> None) s'"
  unfolding ioutil_ReadDir_def run_ok_def by (auto dest!: logged_trace split: sum.splits)

lemma Readlink_run_ok:
  "os_Readlink os p s = (r, s') \<Longrightarrow>
   run_ok s (case r of Inl e \<Rightarrow> Some e | Inr _ \<Rightarrow> None) s'"
  unfolding os_Readlink_def run_ok_def by (auto dest!: logged_trace split: sum.splits)

lemma Lstat_run_ok:
  "os_Lstat os p s = (r, s') \<Longrightarrow>
   run_ok s (case r of Inl e \<Rightarrow> Some e | Inr _ \<Rightarrow> None) s'"
  unfolding os_Lstat_def run_ok_def by (auto dest!: logged_trace split: sum.splits)

lemma copy_run_ok_all:
  "(\<forall>r s'. copy os n src dest toSkip info opt s = Some (r, s') \<longrightarrow> run_ok s r s')"
  "(\<forall>r s'. dcopy os n srcdir destdir toSkip info opt s = Some (r, s') \<longrightarrow> run_ok s r s')"
  "(\<forall>r s'. dcopy_loop os n srcdir destdir toSkip opt contents s = Some (r, s') \<longrightarrow> run_ok s r s')"
  "(\<forall>r s'. onsymlink os n src dest info opt s = Some (r, s') \<longrightarrow> run_ok s r s')"
proof (induction os n src dest toSkip info opt s
    and os n srcdir destdir toSkip info opt s
    and os n srcdir destdir toSkip opt contents s
    and os n src dest info opt s
    rule: copy_dcopy_dcopy_loop_onsymlink.induct)
  case (1 os n src dest toSkip info opt s)
  then show ?case
    by (auto simp: copy.simps[of os n src] run_ok_refl fcopy_run_ok split: if_splits)
next
  case (2 os n srcdir destdir toSkip info opt s)
  show ?case
  proof (intro allI impI)
    fix r s' assume run: "dcopy os n srcdir destdir toSkip info opt s = Some (r, s')"
    obtain mr s1 where mk: "os_MkdirAll os destdir tmpPermissionForDirectory s = (mr, s1)"
      by (cases "os_MkdirAll os destdir tmpPermissionForDirectory s")
    show "run_ok s r s'"
    proof (cases mr)
      case (Some e)
      with run mk show ?thesis
        using MkdirAll_run_ok[OF mk] by (simp add: dcopy.simps)
    next
      case None
      obtain rr s2 where rd: "ioutil_ReadDir os srcdir s1 = (rr, s2)"
        by (cases "ioutil_ReadDir os srcdir s1")
      have ok1: "run_ok s None s1" using MkdirAll_run_ok[OF mk] None by simp
      show ?thesis
      proof (cases rr)
        case (Inl e)
        have "run_ok s1 (Some e) s2" using ReadDir_run_ok[OF rd] Inl by simp
        then have "run_ok s (Some e) s2" using ok1 run_ok_trans by blast
        moreover have "chmod os destdir (Mode info) (Some e, s2) = (r, s')"
          using run mk None rd Inl by (simp add: dcopy.simps)
        ultimately show ?thesis using chmod_run_ok by blast
      next
        case (Inr contents)
        have ok2: "run_ok s None s2"
          using ReadDir_run_ok[OF rd] Inr ok1 run_ok_trans by fastforce
        from run mk None rd Inr obtain r0 s3 where
          lp: "dcopy_loop os n srcdir destdir toSkip opt contents s2 = Some (r0, s3)"
          and ch: "chmod os destdir (Mode info) (r0, s3) = (r, s')"
          by (auto simp: dcopy.simps)
        have "run_ok s2 r0 s3"
          using "2.IH"[OF refl mk[symmetric] None rd[symmetric] Inr] lp by blast
        then have "run_ok s r0 s3" using ok2 run_ok_trans by blast
        then show ?thesis using ch chmod_run_ok by blast
      qed
    qed
  qed
next
  case (3 os n srcdir destdir toSkip opt s)
  then show ?case by (simp add: dcopy_loop.simps run_ok_refl)
next
  case (4 os n srcdir destdir toSkip opt content rest s)
  show ?case
  proof (intro allI impI)
    fix r s' assume run: "dcopy_loop os n srcdir destdir toSkip opt (content # rest) s = Some (r, s')"
    then obtain m where n: "n = Suc m" by (cases n) (auto simp: dcopy_loop.simps)
    from run n obtain r1 s1 where
      c: "copy os m (filepath_Join srcdir (Name content)) (filepath_Join destdir (Name content))
            toSkip content opt s = Some (r1, s1)"
      by (auto simp: dcopy_loop.simps split: option.splits)
    have ok1: "run_ok s r1 s1" using "4.IH"(1)[OF refl refl n] c by blast
    show "run_ok s r s'"
    proof (cases r1)
      case (Some e)
      with run n c ok1 show ?thesis by (simp add: dcopy_loop.simps)
    next
      case None
      with run n c have "dcopy_loop os n srcdir destdir toSkip opt rest s1 = Some (r, s')"
        by (simp add: dcopy_loop.simps)
      then have "run_ok s1 r s'"
        using "4.IH"(2)[OF refl refl n] c None by auto
      then show ?thesis using ok1 None run_ok_trans by blast
    qed
  qed
next
  case (5 os n src dest info opt s)
  show ?case
  proof (intro allI impI)
    fix r s' assume run: "onsymlink os n src dest info opt s = Some (r, s')"
    define opt1 where "opt1 = (if OnSymlink opt = None
                 then opt\<lparr>OnSymlink := OnSymlink DefaultOptions\<rparr> else opt)"
    from run obtain policy where pol: "OnSymlink opt1 = Some policy"
      by (cases "OnSymlink opt1") (auto simp: onsymlink.simps opt1_def Let_def)
    show "run_ok s r s'"
    proof (cases "policy src")
      case Shallow
      with run pol show ?thesis
        by (auto simp: onsymlink.simps opt1_def Let_def lcopy_run_ok split: if_splits)
    next
      case Deep
      obtain lr s1 where rl: "os_Readlink os src s = (lr, s1)" by (cases "os_Readlink os src s")
      show ?thesis
      proof (cases lr)
        case (Inl e)
        with run pol Deep rl have "r = Some e" "s' = s1"
          by (auto simp: onsymlink.simps opt1_def Let_def split: if_splits)
        then show ?thesis using Readlink_run_ok[OF rl] Inl by simp
      next
        case (Inr orig)
        have ok1: "run_ok s None s1" using Readlink_run_ok[OF rl] Inr by simp
        obtain sr s2 where st: "os_Lstat os orig s1 = (sr, s2)" by (cases "os_Lstat os orig s1")
        show ?thesis
        proof (cases sr)
          case (Inl e)
          with run pol Deep rl Inr st have "r = Some e" "s' = s2"
            by (auto simp: onsymlink.simps opt1_def Let_def split: if_splits)
          then show ?thesis using Lstat_run_ok[OF st] Inl ok1 run_ok_trans by fastforce
        next
          case (Inr info')
          have ok2: "run_ok s None s2"
            using Lstat_run_ok[OF st] Inr ok1 run_ok_trans by fastforce
          from run pol Deep rl \<open>lr = Inr orig\<close> st Inr obtain m where n: "n = Suc m"
            and c: "copy os m orig dest {} info' opt1 s2 = Some (r, s')"
            by (cases n) (auto simp: onsymlink.simps opt1_def Let_def split: if_splits)
          have "run_ok s2 r s'"
            using "5.IH"[OF opt1_def pol Deep rl[symmetric] \<open>lr = Inr orig\<close> st[symmetric] Inr n] c
            by blast
          then show ?thesis using ok2 run_ok_trans by blast
        qed
      qed
    next
      case Skip
      with run pol show ?thesis
        by (auto simp: onsymlink.simps opt1_def Let_def run_ok_refl split: if_splits)
    next
      case (Unrecognized k)
      with run pol show ?thesis
        by (auto simp: onsymlink.simps opt1_def Let_def run_ok_refl split: if_splits)
    qed
  qed
qed


lemma dcopy_loop_append:
  "dcopy_loop os n sd dd S opt pre s = Some (None, s1) \<Longrightarrow>
   dcopy_loop os n sd dd S opt (pre @ rest) s = dcopy_loop os n sd dd S opt rest s1"
proof (induction pre arbitrary: s)
  case Nil
  then show ?case by (simp add: dcopy_loop.simps)
next
  case (Cons c pre)
  then show ?case
    by (cases n) (auto simp: dcopy_loop.simps Let_def split: option.splits prod.splits)
qed

subsection \<open>Paths in the skip set\<close>









lemma Lstat_avoids: "os_Lstat os p s = (r, s') \<Longrightarrow> avoids S s s'"
  unfolding os_Lstat_def avoids_def by (auto dest!: logged_trace)



section \<open>Properties on the in-memory filesystem\<close>

subsection \<open>What the calls do to the files\<close>

lemma map_of_put: "map_of (put k nd al) = (map_of al)(k \<mapsto> nd)"
  by (induction al) (auto simp: fun_eq_iff)

lemma lookup_store [simp]: "lookup (store fs k nd) k' = (if k' = k then Some nd else lookup fs k')"
  by (simp add: lookup_def store_def map_of_put)

lemma umask_store [simp]: "umask (store fs k nd) = umask fs"
  by (simp add: store_def)

lemma walk_key: "walk fs cur es = Inr k \<Longrightarrow> k = cur @ es"
proof (induction es arbitrary: cur)
  case Nil
  then show ?case by simp
next
  case (Cons e es)
  from Cons.prems have "walk fs (cur @ [e]) es = Inr k"
    by (auto split: option.splits node.splits)
  from Cons.IH[OF this] show ?case by simp
qed

lemma resolve_key: "resolve fs p = Inr k \<Longrightarrow> k = keyOf p"
  by (auto simp: resolve_def split: if_splits dest: walk_key)


lemma with_fault_ok:
  "with_fault err f w = (r, w') \<Longrightarrow> (\<forall>e. r \<noteq> err e) \<Longrightarrow> f (files w) = (r, files w')"
  by (auto simp: with_fault_def split: list.splits option.splits prod.splits)


lemma chmodBits_no_symlink: "chmodBits AND ModeSymlink = 0"
  by (simp add: chmodBits_def ModePerm_def ModeSetuid_def ModeSetgid_def ModeSticky_def ModeSymlink_def)

lemma chmodBits_no_dir: "chmodBits AND ModeDir = 0"
  by (simp add: chmodBits_def ModePerm_def ModeSetuid_def ModeSetgid_def ModeSticky_def ModeDir_def)

lemma masked_not_symlink [simp]: "(m AND chmodBits) AND ModeSymlink = 0"
  by (simp add: and.assoc chmodBits_no_symlink)

lemma masked_not_dir [simp]: "(m AND chmodBits) AND ModeDir = 0"
  by (simp add: and.assoc chmodBits_no_dir)

lemma masked_twice [simp]: "(m AND chmodBits) AND chmodBits = m AND chmodBits"
  by (simp add: and.assoc)

lemma logged_fault:
  "logged ev (with_fault err g) s = (r, s') \<Longrightarrow> (\<forall>e. r \<noteq> err e) \<Longrightarrow>
   g (files (world s)) = (r, files (world s'))"
  by (auto simp: logged_def split: prod.splits dest: with_fault_ok)




lemma Chmod_ok:
  assumes "os_Chmod memfs_os p mode s = (None, s')"
  shows "(\<exists>c m. lookup (files (world s)) (keyOf p) = Some (File c m) \<and>
            files (world s') = store (files (world s)) (keyOf p) (File c (mode AND chmodBits))) \<or>
         (\<exists>m. lookup (files (world s)) (keyOf p) = Some (Dir m) \<and>
            files (world s') = store (files (world s)) (keyOf p) (Dir (mode AND chmodBits)))"
proof -
  have "fs_Chmod p mode (files (world s)) = (None, files (world s'))"
    using assms by (intro logged_fault[where err = Some]) (auto simp: os_Chmod_def memfs_os_def)
  then show ?thesis
    by (auto simp: fs_Chmod_def split: sum.splits option.splits node.splits dest: resolve_key)
qed





section \<open>The claims\<close>




text \<open>
  Claim C2. Whenever \<open>dcopy\<close> has made its destination directory (\<open>MkdirAll\<close> with
  the fixed mode 0755 succeeded) and returns, with or without an error from the
  contents, its last call is the \<open>Chmod\<close> of the destination to the mode recorded from
  the source descriptor; unless that \<open>Chmod\<close> itself fails, the destination then
  carries the permission bits of the source.
\<close>

theorem dcopy_restores_mode:
  assumes src: "lookup (files (world s)) (keyOf srcdir) = Some nd"
    and info: "Mode info = node_mode nd"
    and mk: "os_MkdirAll memfs_os destdir tmpPermissionForDirectory s = (None, s1)"
    and run: "dcopy memfs_os n srcdir destdir toSkip info opt s = Some (r, s')"
  shows "\<exists>evs cerr.
     new_calls s s' = CallMkdirAll destdir tmpPermissionForDirectory None # evs @
        [CallChmod destdir (Mode info) cerr] \<and>
     (cerr = None \<longrightarrow>
        (\<exists>nd'. lookup (files (world s')) (keyOf destdir) = Some nd' \<and> perm_bits nd' = perm_bits nd))"
proof -
  have t1: "trace s1 = trace s @ [CallMkdirAll destdir tmpPermissionForDirectory None]"
    using mk unfolding os_MkdirAll_def by (rule logged_trace)
  from run mk obtain r0 s3 where
    inner: "(case ioutil_ReadDir memfs_os srcdir s1 of
               (Inl err, s2) \<Rightarrow> Some (Some err, s2)
             | (Inr contents, s2) \<Rightarrow>
                 dcopy_loop memfs_os n srcdir destdir toSkip opt contents s2) = Some (r0, s3)"
    and ch: "chmod memfs_os destdir (Mode info) (r0, s3) = (r, s')"
    by (auto simp: dcopy.simps)
  obtain rr s2 where rd: "ioutil_ReadDir memfs_os srcdir s1 = (rr, s2)"
    by (cases "ioutil_ReadDir memfs_os srcdir s1")
  have t2: "trace s2 = trace s1 @ [CallReadDir srcdir rr]"
    using rd unfolding ioutil_ReadDir_def by (rule logged_trace)
  have "\<exists>evs. trace s3 = trace s2 @ evs"
  proof (cases rr)
    case (Inl e)
    with inner rd show ?thesis by simp
  next
    case (Inr contents)
    with inner rd have "dcopy_loop memfs_os n srcdir destdir toSkip opt contents s2 = Some (r0, s3)"
      by simp
    then show ?thesis using copy_run_ok_all(3) run_ok_trace by blast
  qed
  then obtain evs where t3: "trace s3 = trace s2 @ evs" ..
  obtain cerr where oc: "os_Chmod memfs_os destdir (Mode info) s3 = (cerr, s')"
    using ch by (auto simp: chmod_def split: prod.splits)
  have t4: "trace s' = trace s3 @ [CallChmod destdir (Mode info) cerr]"
    using oc unfolding os_Chmod_def by (rule logged_trace)
  have calls: "new_calls s s' = CallMkdirAll destdir tmpPermissionForDirectory None #
      (CallReadDir srcdir rr # evs) @ [CallChmod destdir (Mode info) cerr]"
    using t1 t2 t3 t4 by (simp add: new_calls_def)
  have "\<exists>nd'. lookup (files (world s')) (keyOf destdir) = Some nd' \<and> perm_bits nd' = perm_bits nd"
    if "cerr = None"
  proof -
    from Chmod_ok[OF oc[unfolded that]] show ?thesis
    proof (elim disjE exE conjE)
      fix c m assume "files (world s') =
          store (files (world s3)) (keyOf destdir) (File c (Mode info AND chmodBits))"
      then show ?thesis by (simp add: perm_bits_def info)
    next
      fix m assume "files (world s') =
          store (files (world s3)) (keyOf destdir) (Dir (Mode info AND chmodBits))"
      then show ?thesis
        by (simp add: perm_bits_def info bit.conj_disj_distrib2 and.commute[of ModeDir] chmodBits_no_dir)
    qed
  qed
  with calls show ?thesis by blast
qed

text \<open>The private directory \<open>a/b\<close> (mode 0700) copied to \<open>out\<close>: \<open>out\<close> is made with
  0755 and ends with 0700.\<close>

theorem dcopy_restores_mode_witness:
  "lookup (files (world (boot demo_fs []))) (keyOf ''a/b'') = Some (Dir 448) \<and>
   Mode info_b = node_mode (Dir 448) \<and>
   os_MkdirAll memfs_os ''out'' tmpPermissionForDirectory (boot demo_fs []) =
     (None, finished (demo_plus [([''out''], Dir 493)]) [CallMkdirAll ''out'' 493 None]) \<and>
   dcopy memfs_os 1 ''a/b'' ''out'' {} info_b DefaultOptions (boot demo_fs []) =
     Some (None, finished (demo_plus [([''out''], Dir 448), ([''out'', ''g''], File [7] 384)])
        ([CallMkdirAll ''out'' 493 None, CallReadDir ''a/b'' (Inr [\<lparr>Name = ''g'', Mode = 384\<rparr>])] @
         fcopy_calls ''a/b/g'' ''out/g'' 384 @ [CallChmod ''out'' 2147484096 None])) \<and>
   lookup (demo_plus [([''out''], Dir 448), ([''out'', ''g''], File [7] 384)]) (keyOf ''out'') =
     Some (Dir 448)"
proof -
  have h1: "lookup (files (world (boot demo_fs []))) (keyOf ''a/b'') = Some (Dir 448)"
    by code_simp
  have h2: "Mode info_b = node_mode (Dir 448)"
    by code_simp
  have h3: "os_MkdirAll memfs_os ''out'' tmpPermissionForDirectory (boot demo_fs []) =
     (None, finished (demo_plus [([''out''], Dir 493)]) [CallMkdirAll ''out'' 493 None])"
    by code_simp
  have h4: "dcopy memfs_os 1 ''a/b'' ''out'' {} info_b DefaultOptions (boot demo_fs []) =
     Some (None, finished (demo_plus [([''out''], Dir 448), ([''out'', ''g''], File [7] 384)])
        ([CallMkdirAll ''out'' 493 None, CallReadDir ''a/b'' (Inr [\<lparr>Name = ''g'', Mode = 384\<rparr>])] @
         fcopy_calls ''a/b/g'' ''out/g'' 384 @ [CallChmod ''out'' 2147484096 None]))"
    by code_simp
  have h5: "lookup (demo_plus [([''out''], Dir 448), ([''out'', ''g''], File [7] 384)]) (keyOf ''out'') =
     Some (Dir 448)"
    by code_simp
  from dcopy_restores_mode[OF h1 h2 h3 h4] h1 h2 h3 h4 h5 show ?thesis by simp
qed

text \<open>
  Claim C3. When the children before \<open>content\<close> have been copied without error and
  the copy of \<open>content\<close> returns the error \<open>err\<close>, \<open>dcopy\<close> makes one more call, the
  \<open>Chmod\<close> that restores the mode of the destination, and returns \<open>err\<close> itself,
  whatever that \<open>Chmod\<close> answers; the children after \<open>content\<close> play no part.
\<close>

theorem dcopy_first_child_error:
  assumes mk: "os_MkdirAll os destdir tmpPermissionForDirectory s = (None, s1)"
    and rd: "ioutil_ReadDir os srcdir s1 = (Inr (pre @ content # post), s2)"
    and pre: "dcopy_loop os (Suc n) srcdir destdir toSkip opt pre s2 = Some (None, s3)"
    and fail: "copy os n (filepath_Join srcdir (Name content))
        (filepath_Join destdir (Name content)) toSkip content opt s3 = Some (Some err, s4)"
  shows "\<exists>cerr w5. Chmod os destdir (Mode info) (world s4) = (cerr, w5) \<and>
     dcopy os (Suc n) srcdir destdir toSkip info opt s =
       Some (Some err, \<lparr>world = w5, trace = trace s4 @ [CallChmod destdir (Mode info) cerr]\<rparr>)"
proof -
  obtain cerr w5 where ch: "Chmod os destdir (Mode info) (world s4) = (cerr, w5)"
    by (cases "Chmod os destdir (Mode info) (world s4)")
  have "dcopy_loop os (Suc n) srcdir destdir toSkip opt (pre @ content # post) s2 =
      Some (Some err, s4)"
    using dcopy_loop_append[OF pre] fail by (simp add: dcopy_loop.simps)
  then have "dcopy os (Suc n) srcdir destdir toSkip info opt s =
      Some (Some err, \<lparr>world = w5, trace = trace s4 @ [CallChmod destdir (Mode info) cerr]\<rparr>)"
    using mk rd ch by (simp add: dcopy.simps chmod_def os_Chmod_def logged_def)
  with ch show ?thesis by blast
qed

text \<open>The directory \<open>a\<close> with the children \<open>b\<close>, \<open>f\<close> and \<open>l\<close>: \<open>b\<close> is copied, the
  \<open>Create\<close> for \<open>f\<close> fails for lack of space, \<open>l\<close> is never looked at.\<close>

theorem dcopy_first_child_error_witness:
  "os_MkdirAll memfs_os ''out'' tmpPermissionForDirectory (boot demo_fs create_faults) =
     (None, run_made) \<and>
   ioutil_ReadDir memfs_os ''a'' run_made = (Inr ([info_b] @ info_f # [info_l]), run_listed) \<and>
   dcopy_loop memfs_os (Suc 1) ''a'' ''out'' {} DefaultOptions [info_b] run_listed =
     Some (None, run_first) \<and>
   copy memfs_os 1 (filepath_Join ''a'' (Name info_f)) (filepath_Join ''out'' (Name info_f)) {}
     info_f DefaultOptions run_first = Some (Some ENOSPC, run_failed) \<and>
   dcopy memfs_os (Suc 1) ''a'' ''out'' {} info_a DefaultOptions (boot demo_fs create_faults) =
     Some (Some ENOSPC,
       finished (demo_plus [([''out''], Dir 365), ([''out'', ''b''], Dir 448),
          ([''out'', ''b'', ''g''], File [7] 384)])
         (trace run_failed @ [CallChmod ''out'' (Mode info_a) None]))"
proof -
  have h1: "os_MkdirAll memfs_os ''out'' tmpPermissionForDirectory (boot demo_fs create_faults) =
     (None, run_made)"
    by code_simp
  have h2: "ioutil_ReadDir memfs_os ''a'' run_made =
     (Inr ([info_b] @ info_f # [info_l]), run_listed)"
    by code_simp
  have h3: "dcopy_loop memfs_os (Suc 1) ''a'' ''out'' {} DefaultOptions [info_b] run_listed =
     Some (None, run_first)"
    by code_simp
  have h4: "copy memfs_os 1 (filepath_Join ''a'' (Name info_f))
     (filepath_Join ''out'' (Name info_f)) {} info_f DefaultOptions run_first =
     Some (Some ENOSPC, run_failed)"
    by code_simp
  have h5: "Chmod memfs_os ''out'' (Mode info_a) (world run_failed) =
     (None, \<lparr>files = demo_plus [([''out''], Dir 365), ([''out'', ''b''], Dir 448),
          ([''out'', ''b'', ''g''], File [7] 384)], faults = []\<rparr>)"
    by code_simp
  from dcopy_first_child_error[OF h1 h2 h3 h4, of info_a] h1 h2 h3 h4 h5
  show ?thesis by (simp add: finished_def)
qed

text \<open>
  Claim C4. Called on a source path that is in the skip set, the dispatcher returns
  success and the state it was given: the world is untouched and no call was made.
\<close>

theorem copy_skipped_no_effect:
  "src \<in> toSkip \<Longrightarrow> copy os n src dest toSkip info opt s = Some (None, s)"
  by (simp add: copy.simps)

theorem copy_skipped_no_effect_witness:
  "''a/f'' \<in> {''a/f'', ''a/l''} \<and>
   copy memfs_os 0 ''a/f'' ''out/f'' {''a/f'', ''a/l''} info_f DefaultOptions (boot demo_fs []) =
     Some (None, boot demo_fs [])"
  using copy_skipped_no_effect[of "''a/f''" "{''a/f'', ''a/l''}" memfs_os 0 "''out/f''" info_f
      DefaultOptions "boot demo_fs []"]
  by simp

text \<open>
  Claim C5. The error \<open>fcopy\<close> reports is the first error, in the order of the calls,
  among all the calls it made, the deferred \<open>Close\<close> calls included, and every file it
  opened has been closed when it returns, the latest first. The same holds of \<open>dcopy\<close>
  with its deferred \<open>Chmod\<close> and everything below it.
\<close>

theorem first_error_wins:
  "(fcopy os src dest info s = (r, s') \<longrightarrow>
      (\<exists>evs. trace s' = trace s @ evs \<and> r = first_error evs \<and> open_files [] evs = Some [])) \<and>
   (dcopy os n srcdir destdir toSkip dinfo opt t = Some (r', t') \<longrightarrow>
      (\<exists>evs. trace t' = trace t @ evs \<and> r' = first_error evs \<and> open_files [] evs = Some []))"
  using fcopy_run_ok[of os src dest info s r s']
    copy_run_ok_all(2)[of os n srcdir destdir toSkip dinfo opt t]
  by (auto simp: run_ok_def)

text \<open>A file copy whose two \<open>Close\<close> calls fail, the source's with \<open>EIO\<close> and then the
  destination's with \<open>ENOSPC\<close>, reports \<open>EIO\<close>; a directory copy whose restoring \<open>Chmod\<close>
  is denied reports \<open>EACCES\<close>.\<close>

theorem first_error_wins_witness:
  "fcopy memfs_os ''a/f'' ''x/y'' info_f (boot demo_fs close_faults) =
     (Some EIO, finished (demo_plus [([''x''], Dir 493), ([''x'', ''y''], File [1, 2, 3] 420)])
        [CallMkdirAll ''x'' 511 None,
         CallCreate ''x/y'' (Inr (handle_of ''x/y'')),
         CallChmod ''x/y'' 420 None,
         CallOpen ''a/f'' (Inr (handle_of ''a/f'')),
         CallIoCopy (handle_of ''x/y'') (handle_of ''a/f'') None,
         CallClose (handle_of ''a/f'') (Some EIO),
         CallClose (handle_of ''x/y'') (Some ENOSPC)]) \<and>
   dcopy memfs_os 1 ''a/b'' ''out'' {} info_b DefaultOptions (boot demo_fs chmod_faults) =
     Some (Some EACCES,
       finished (demo_plus [([''out''], Dir 493), ([''out'', ''g''], File [7] 384)])
        ([CallMkdirAll ''out'' 493 None, CallReadDir ''a/b'' (Inr [\<lparr>Name = ''g'', Mode = 384\<rparr>])] @
         fcopy_calls ''a/b/g'' ''out/g'' 384 @ [CallChmod ''out'' 2147484096 (Some EACCES)])) \<and>
   first_error
     [CallMkdirAll ''x'' 511 None,
      CallCreate ''x/y'' (Inr (handle_of ''x/y'')),
      CallChmod ''x/y'' 420 None,
      CallOpen ''a/f'' (Inr (handle_of ''a/f'')),
      CallIoCopy (handle_of ''x/y'') (handle_of ''a/f'') None,
      CallClose (handle_of ''a/f'') (Some EIO),
      CallClose (handle_of ''x/y'') (Some ENOSPC)] = Some EIO \<and>
   first_error
     ([CallMkdirAll ''out'' 493 None, CallReadDir ''a/b'' (Inr [\<lparr>Name = ''g'', Mode = 384\<rparr>])] @
      fcopy_calls ''a/b/g'' ''out/g'' 384 @ [CallChmod ''out'' 2147484096 (Some EACCES)]) =
     Some EACCES"
proof -
  have f: "fcopy memfs_os ''a/f'' ''x/y'' info_f (boot demo_fs close_faults) =
     (Some EIO, finished (demo_plus [([''x''], Dir 493), ([''x'', ''y''], File [1, 2, 3] 420)])
        [CallMkdirAll ''x'' 511 None,
         CallCreate ''x/y'' (Inr (handle_of ''x/y'')),
         CallChmod ''x/y'' 420 None,
         CallOpen ''a/f'' (Inr (handle_of ''a/f'')),
         CallIoCopy (handle_of ''x/y'') (handle_of ''a/f'') None,
         CallClose (handle_of ''a/f'') (Some EIO),
         CallClose (handle_of ''x/y'') (Some ENOSPC)])"
    by code_simp
  have d: "dcopy memfs_os 1 ''a/b'' ''out'' {} info_b DefaultOptions (boot demo_fs chmod_faults) =
     Some (Some EACCES,
       finished (demo_plus [([''out''], Dir 493), ([''out'', ''g''], File [7] 384)])
        ([CallMkdirAll ''out'' 493 None, CallReadDir ''a/b'' (Inr [\<lparr>Name = ''g'', Mode = 384\<rparr>])] @
         fcopy_calls ''a/b/g'' ''out/g'' 384 @ [CallChmod ''out'' 2147484096 (Some EACCES)]))"
    by code_simp
  let ?s' = "finished (demo_plus [([''x''], Dir 493), ([''x'', ''y''], File [1, 2, 3] 420)])
        [CallMkdirAll ''x'' 511 None,
         CallCreate ''x/y'' (Inr (handle_of ''x/y'')),
         CallChmod ''x/y'' 420 None,
         CallOpen ''a/f'' (Inr (handle_of ''a/f'')),
         CallIoCopy (handle_of ''x/y'') (handle_of ''a/f'') None,
         CallClose (handle_of ''a/f'') (Some EIO),
         CallClose (handle_of ''x/y'') (Some ENOSPC)]"
  let ?t' = "finished (demo_plus [([''out''], Dir 493), ([''out'', ''g''], File [7] 384)])
        ([CallMkdirAll ''out'' 493 None, CallReadDir ''a/b'' (Inr [\<lparr>Name = ''g'', Mode = 384\<rparr>])] @
         fcopy_calls ''a/b/g'' ''out/g'' 384 @ [CallChmod ''out'' 2147484096 (Some EACCES)])"
  from first_error_wins[of memfs_os "''a/f''" "''x/y''" info_f "boot demo_fs close_faults"
      "Some EIO" ?s' 1 "''a/b''" "''out''" "{}" info_b DefaultOptions "boot demo_fs chmod_faults"
      "Some EACCES" ?t'] f d
  show ?thesis by (auto simp: boot_def finished_def)
qed




text \<open>
  Claim C8. On a link for which the policy answers Deep, the dispatcher reads the
  link with \<open>Readlink\<close>, stats the target with \<open>Lstat\<close>, which does not follow links, and
  calls itself on the target with the same destination, the same options and the
  empty skip set: the skip set it was given does not occur in the result.
\<close>

theorem Deep_drops_skip_set:
  "OnSymlink opt = Some policy \<Longrightarrow> policy src = Deep \<Longrightarrow> src \<notin> toSkip \<Longrightarrow>
   Mode info AND ModeSymlink \<noteq> 0 \<Longrightarrow>
   copy os (Suc n) src dest toSkip info opt s =
     (case os_Readlink os src s of
        (Inl err, s1) \<Rightarrow> Some (Some err, s1)
      | (Inr orig, s1) \<Rightarrow>
          (case os_Lstat os orig s1 of
             (Inl err, s2) \<Rightarrow> Some (Some err, s2)
           | (Inr info', s2) \<Rightarrow> copy os n orig dest {} info' opt s2))"
  by (simp add: copy.simps[of _ _ src] onsymlink.simps split: prod.splits sum.splits)

theorem Deep_drops_skip_set_witness:
  "OnSymlink deep_options = Some (\<lambda>_. Deep) \<and> (\<lambda>_. Deep) ''a/l'' = Deep \<and>
   ''a/l'' \<notin> {''a/b'', ''a/b/g''} \<and> Mode info_l AND ModeSymlink \<noteq> 0 \<and>
   copy memfs_os (Suc 1) ''a/l'' ''out'' {''a/b'', ''a/b/g''} info_l deep_options (boot demo_fs []) =
     (case os_Readlink memfs_os ''a/l'' (boot demo_fs []) of
        (Inl err, s1) \<Rightarrow> Some (Some err, s1)
      | (Inr orig, s1) \<Rightarrow>
          (case os_Lstat memfs_os orig s1 of
             (Inl err, s2) \<Rightarrow> Some (Some err, s2)
           | (Inr info', s2) \<Rightarrow> copy memfs_os 1 orig ''out'' {} info' deep_options s2))"
proof -
  have h1: "OnSymlink deep_options = Some (\<lambda>_. Deep)" by (simp add: deep_options_def)
  have h2: "(\<lambda>_::path. Deep) ''a/l'' = Deep" by simp
  have h3: "''a/l'' \<notin> {''a/b'', ''a/b/g''}" by simp
  have h4: "Mode info_l AND ModeSymlink \<noteq> 0" by (simp add: info_l_def ModeSymlink_def)
  from Deep_drops_skip_set[OF h1 h2 h3 h4, of memfs_os 1 "''out''" "boot demo_fs []"] h1 h3 h4
  show ?thesis by simp
qed

text \<open>
  Claim C9. \<open>Copy\<close> is the skip-aware entry point called with no path to skip: the
  same result and the same final state, for every source, destination and options.
\<close>

theorem Copy_is_CopyButSkipSome_without_skips:
  "Copy os n src dest opt s = CopyButSkipSome os n src dest [] opt s"
  by (simp add: Copy_def)

text \<open>
  Claim C10. When the \<open>Lstat\<close> of the source fails, the skip-aware entry point returns
  that error after this one call, whatever the skip list holds, the source path
  itself included: the source is stat'd before the skip set is consulted.
\<close>

theorem CopyButSkipSome_stat_error_first:
  "Lstat os src (world s) = (Inl err, w') \<Longrightarrow>
   CopyButSkipSome os n src dest toSkip opt s =
     Some (Some err, \<lparr>world = w', trace = trace s @ [CallLstat src (Inl err)]\<rparr>)"
  by (simp add: CopyButSkipSome_def os_Lstat_def logged_def Let_def)

text \<open>The path \<open>nope\<close> does not exist and is in the skip list.\<close>

theorem CopyButSkipSome_stat_error_first_witness:
  "Lstat memfs_os ''nope'' (world (boot demo_fs [])) =
     (Inl ENOENT, \<lparr>files = demo_fs, faults = []\<rparr>) \<and>
   CopyButSkipSome memfs_os 0 ''nope'' ''out'' [''nope''] [] (boot demo_fs []) =
     Some (Some ENOENT, \<lparr>world = \<lparr>files = demo_fs, faults = []\<rparr>,
        trace = trace (boot demo_fs []) @ [CallLstat ''nope'' (Inl ENOENT)]\<rparr>)"
proof -
  have h: "Lstat memfs_os ''nope'' (world (boot demo_fs [])) =
      (Inl ENOENT, \<lparr>files = demo_fs, faults = []\<rparr>)"
    by code_simp
  from CopyButSkipSome_stat_error_first[OF h] h show ?thesis by simp
qed

end
